theory Spec2Isabelle
  imports Main "HOL-Library.Word"
begin

section \<open>Exceptions\<close>

text \<open>
  The SDK reports every failure by throwing. The base class \<open>Error\<close> carries the
  \<open>what()\<close> text; \<open>HttpError\<close> adds \<open>status_code\<close>, \<open>ApiError\<close> adds
  \<open>error_code\<close>, \<open>ValidationError\<close> adds nothing. A function that may throw returns
  \<open>error + 'a\<close>, with \<open>Inl\<close> for the exception thrown. The constructor \<open>Error\<close>
  stands for an exception whose dynamic type is the base class itself.
\<close>

datatype error =
    Error string
  | HttpError int string
  | ApiError string string
  | ValidationError string

text \<open>Sequencing of calls that may throw: the first exception ends the block.\<close>

definition and_then :: "'e + 'a \<Rightarrow> ('a \<Rightarrow> 'e + 'b) \<Rightarrow> 'e + 'b" where
  "and_then m f = (case m of Inl e \<Rightarrow> Inl e | Inr x \<Rightarrow> f x)"

section \<open>Types\<close>

text \<open>C++ \<open>int\<close> and \<open>int64_t\<close> are 32-bit and 64-bit words, read as signed by \<open>sint\<close>.\<close>

type_synonym int32 = "32 word"
type_synonym int64 = "64 word"
type_synonym uint8 = "8 word"

text \<open>A \<open>double\<close> is only carried from the options into the request body.\<close>

typedecl double

datatype Format = PNG | JPEG | WEBP

datatype WaitUntil = Load | DOMContentLoaded | NetworkIdle | Commit

record ScreenshotOptions =
  url :: string
  format :: "Format option"
  quality :: "int32 option"
  width :: "int32 option"
  height :: "int32 option"
  full_page :: "bool option"
  wait_until :: "WaitUntil option"
  wait_for_selector :: "string option"
  wait_for_timeout :: "int32 option"
  device_scale_factor :: "double option"
  store :: "bool option"
  block_ads :: "bool option"

text \<open>
  \<open>StoredScreenshot\<close>: the fields carry the prefix \<open>stored_\<close> here, because
  \<open>ScreenshotOptions\<close> has fields of the same names.
\<close>

record StoredScreenshot =
  stored_url :: string
  stored_expires_at :: string
  stored_width :: int32
  stored_height :: int32
  stored_size_bytes :: int64

text \<open>
  \<open>ScreenshotResult\<close>: the private members \<open>bytes_\<close> and \<open>stored_\<close> are
  \<open>bytes_m\<close> and \<open>stored_m\<close>. The two private constructors set one member and
  default-initialise the other (an empty vector, an empty optional).
\<close>

record ScreenshotResult =
  bytes_m :: "uint8 list"
  stored_m :: "StoredScreenshot option"

definition ScreenshotResult_of_bytes :: "uint8 list \<Rightarrow> ScreenshotResult" where
  "ScreenshotResult_of_bytes data = \<lparr>bytes_m = data, stored_m = None\<rparr>"

definition ScreenshotResult_of_stored :: "StoredScreenshot \<Rightarrow> ScreenshotResult" where
  "ScreenshotResult_of_stored info = \<lparr>bytes_m = [], stored_m = Some info\<rparr>"

definition is_stored :: "ScreenshotResult \<Rightarrow> bool" where
  "is_stored r = (stored_m r \<noteq> None)"

definition is_bytes :: "ScreenshotResult \<Rightarrow> bool" where
  "is_bytes r = (bytes_m r \<noteq> [])"

definition stored :: "ScreenshotResult \<Rightarrow> error + StoredScreenshot" where
  "stored r =
     (case stored_m r of
        None \<Rightarrow> Inl (Error ''Screenshot was not stored - use bytes() instead'')
      | Some info \<Rightarrow> Inr info)"

definition bytes :: "ScreenshotResult \<Rightarrow> error + uint8 list" where
  "bytes r =
     (case stored_m r of
        Some info \<Rightarrow> Inl (Error ''Screenshot was stored - use stored() instead'')
      | None \<Rightarrow> Inr (bytes_m r))"

text \<open>
  \<open>take_bytes\<close> changes the object: the vector returned is move-constructed from
  \<open>bytes_\<close>, which leaves \<open>bytes_\<close> empty. The model returns the value (or the
  exception) together with the object afterwards.
\<close>

definition take_bytes :: "ScreenshotResult \<Rightarrow> (error + uint8 list) \<times> ScreenshotResult" where
  "take_bytes r =
     (case stored_m r of
        Some info \<Rightarrow> (Inl (Error ''Screenshot was stored - use stored() instead''), r)
      | None \<Rightarrow> (Inr (bytes_m r), r\<lparr>bytes_m := []\<rparr>))"

text \<open>
  The convenience accessors \<open>url()\<close>, \<open>expires_at()\<close>, \<open>width()\<close>, \<open>height()\<close>
  and \<open>size_bytes()\<close> of \<open>ScreenshotResult\<close>, each \<open>stored().field\<close>.
\<close>

definition result_url :: "ScreenshotResult \<Rightarrow> error + string" where
  "result_url r = and_then (stored r) (\<lambda>s. Inr (stored_url s))"

definition result_expires_at :: "ScreenshotResult \<Rightarrow> error + string" where
  "result_expires_at r = and_then (stored r) (\<lambda>s. Inr (stored_expires_at s))"

definition result_width :: "ScreenshotResult \<Rightarrow> error + int32" where
  "result_width r = and_then (stored r) (\<lambda>s. Inr (stored_width s))"

definition result_height :: "ScreenshotResult \<Rightarrow> error + int32" where
  "result_height r = and_then (stored r) (\<lambda>s. Inr (stored_height s))"

definition result_size_bytes :: "ScreenshotResult \<Rightarrow> error + int64" where
  "result_size_bytes r = and_then (stored r) (\<lambda>s. Inr (stored_size_bytes s))"

record Usage =
  screenshots_taken :: int32
  screenshots_limit :: int32
  storage_bytes_used :: int32
  storage_bytes_limit :: int32
  period_start :: string
  period_end :: string

record ClientConfig =
  api_key :: string
  base_url :: string
  timeout_seconds :: int32
  user_agent :: "string option"

definition VERSION :: string where
  "VERSION = ''1.0.0''"

fun to_string_Format :: "Format \<Rightarrow> string" where
  "to_string_Format PNG = ''png''"
| "to_string_Format JPEG = ''jpeg''"
| "to_string_Format WEBP = ''webp''"

fun to_string_WaitUntil :: "WaitUntil \<Rightarrow> string" where
  "to_string_WaitUntil Load = ''load''"
| "to_string_WaitUntil DOMContentLoaded = ''domcontentloaded''"
| "to_string_WaitUntil NetworkIdle = ''networkidle''"
| "to_string_WaitUntil Commit = ''commit''"

section \<open>Standard library\<close>

text \<open>\<open>std::to_string\<close> of an \<open>int\<close>: the decimal digits, with a minus sign below zero.\<close>

fun digits :: "nat \<Rightarrow> string" where
  "digits n =
     (if n < 10 then [char_of (48 + n)]
      else digits (n div 10) @ [char_of (48 + n mod 10)])"

declare digits.simps [simp del]

definition to_string :: "int \<Rightarrow> string" where
  "to_string i = (if i < 0 then CHR ''-'' # digits (nat (- i)) else digits (nat i))"

text \<open>
  \<open>std::string::find\<close>: the position of the first occurrence of the needle, \<open>None\<close>
  for \<open>npos\<close>.
\<close>

fun find_str :: "string \<Rightarrow> string \<Rightarrow> nat option" where
  "find_str [] needle = (if needle = [] then Some 0 else None)"
| "find_str (c # cs) needle =
     (if take (length needle) (c # cs) = needle then Some 0
      else map_option Suc (find_str cs needle))"

text \<open>
  \<open>std::vector<uint8_t>(s.begin(), s.end())\<close>: each \<open>char\<close> of the string converted to
  a byte.
\<close>

definition vector_of_string :: "string \<Rightarrow> uint8 list" where
  "vector_of_string s = map of_char s"

section \<open>The JSON library\<close>

text \<open>
  The client uses nlohmann::json, which is not part of the repository. A JSON document is
  a value of the datatype below; an object keeps its members in an association list that
  is read by key, and \<open>JInt\<close> is a number the library holds as an integer. The
  operations the client calls on a parsed document (\<open>at\<close>, \<open>value\<close>,
  \<open>get<std::string>\<close>, \<open>get<int>\<close>, \<open>get<int64_t>\<close>) follow the library's
  contract: each either returns or throws a \<open>json::exception\<close>. The parser, the
  serialiser, the conversion of a floating-point number to a C++ integer and the text of
  an exception are parameters (\<open>json_lib\<close>): the client's code is verified for every
  such library.
\<close>

datatype json =
    JNull
  | JBool bool
  | JInt int
  | JFloat double
  | JString string
  | JArray "json list"
  | JObject "(string \<times> json) list"

datatype json_exception =
    parse_error string
  | type_error nat
  | out_of_range string

record json_lib =
  parse :: "string \<Rightarrow> json_exception + json"
  dump :: "json \<Rightarrow> string"
  cast_int :: "double \<Rightarrow> int32"
  cast_int64 :: "double \<Rightarrow> int64"
  what :: "json_exception \<Rightarrow> string"




text \<open>\<open>j.at(key)\<close>: the member, \<open>out_of_range\<close> when the object has none of that name.\<close>

definition at :: "json \<Rightarrow> string \<Rightarrow> json_exception + json" where
  "at j key =
     (case j of
        JObject members \<Rightarrow>
          (case map_of members key of
             None \<Rightarrow> Inl (out_of_range key)
           | Some v \<Rightarrow> Inr v)
      | _ \<Rightarrow> Inl (type_error 304))"

text \<open>\<open>j.get<std::string>()\<close>.\<close>

definition get_string :: "json \<Rightarrow> json_exception + string" where
  "get_string j = (case j of JString s \<Rightarrow> Inr s | _ \<Rightarrow> Inl (type_error 302))"

text \<open>
  \<open>j.get<int>()\<close>: \<open>int\<close> is none of the library's own number types, so the
  conversion is the one for arithmetic types. It takes a number or a boolean and
  converts by \<open>static_cast\<close>, without a range check: an integer is reduced to 32 bits,
  \<open>true\<close> is 1 and \<open>false\<close> is 0. Anything else throws \<open>type_error\<close> 302.
\<close>

definition get_int :: "json_lib \<Rightarrow> json \<Rightarrow> json_exception + int32" where
  "get_int J j =
     (case j of
        JInt n \<Rightarrow> Inr (word_of_int n)
      | JFloat d \<Rightarrow> Inr (cast_int J d)
      | JBool b \<Rightarrow> Inr (if b then 1 else 0)
      | _ \<Rightarrow> Inl (type_error 302))"

text \<open>
  \<open>j.get<int64_t>()\<close>: \<open>int64_t\<close> is the library's integer type; the conversion
  takes a number only, again by \<open>static_cast\<close>.
\<close>

definition get_int64 :: "json_lib \<Rightarrow> json \<Rightarrow> json_exception + int64" where
  "get_int64 J j =
     (case j of
        JInt n \<Rightarrow> Inr (word_of_int n)
      | JFloat d \<Rightarrow> Inr (cast_int64 J d)
      | _ \<Rightarrow> Inl (type_error 302))"

text \<open>
  \<open>j.value(key, default_value)\<close> with a string default: the member converted to a
  string, the default when the object has no such member.
\<close>

definition value_string :: "json \<Rightarrow> string \<Rightarrow> string \<Rightarrow> json_exception + string" where
  "value_string j key default_value =
     (case j of
        JObject members \<Rightarrow>
          (case map_of members key of
             None \<Rightarrow> Inr default_value
           | Some v \<Rightarrow> get_string v)
      | _ \<Rightarrow> Inl (type_error 306))"

section \<open>The HTTP transport\<close>

text \<open>
  cpp-httplib is not part of the repository either. A request is what \<open>Post\<close> or
  \<open>Get\<close> is called with; a \<open>Result\<close> is a transport failure (the library's error
  code) or a response. \<open>header_value\<close> is \<open>get_header_value\<close> of the response: the
  value of the named header, empty when the response has none. What the network answers
  is a parameter (\<open>exchange\<close>), as is the library's text for an error code. The wire is
  the list of the requests sent so far; every call of \<open>Post\<close> or \<open>Get\<close> adds one.
\<close>

record Request =
  req_method :: string
  req_path :: string
  req_headers :: "(string \<times> string) list"
  req_body :: string
  req_content_type :: string

record Response =
  status :: int
  header_value :: "string \<Rightarrow> string"
  body :: string

type_synonym Result = "nat + Response"

record httplib_Client =
  host :: string
  connection_timeout :: int32
  read_timeout :: int32
  write_timeout :: int32
  follow_location :: bool

record http_lib =
  exchange :: "httplib_Client \<Rightarrow> Request \<Rightarrow> Result"
  error_to_string :: "nat \<Rightarrow> string"

type_synonym wire = "Request list"

definition Post ::
  "http_lib \<Rightarrow> httplib_Client \<Rightarrow> string \<Rightarrow> (string \<times> string) list \<Rightarrow> string \<Rightarrow> string \<Rightarrow>
     wire \<Rightarrow> Result \<times> wire" where
  "Post H cl p hs b ct w =
     (let req = \<lparr>req_method = ''POST'', req_path = p, req_headers = hs, req_body = b,
                 req_content_type = ct\<rparr>
      in (exchange H cl req, w @ [req]))"

definition Get ::
  "http_lib \<Rightarrow> httplib_Client \<Rightarrow> string \<Rightarrow> (string \<times> string) list \<Rightarrow> wire \<Rightarrow> Result \<times> wire" where
  "Get H cl p hs w =
     (let req = \<lparr>req_method = ''GET'', req_path = p, req_headers = hs, req_body = [],
                 req_content_type = []\<rparr>
      in (exchange H cl req, w @ [req]))"

section \<open>The client\<close>

record Impl =
  config :: ClientConfig
  http :: httplib_Client

text \<open>
  The constructor of \<open>Impl\<close> keeps the configuration and creates the HTTP client for
  the base URL, with the three timeouts and redirects followed.
\<close>

definition Impl_of_config :: "ClientConfig \<Rightarrow> Impl" where
  "Impl_of_config cfg =
     \<lparr>config = cfg,
      http = \<lparr>host = base_url cfg,
              connection_timeout = timeout_seconds cfg,
              read_timeout = timeout_seconds cfg,
              write_timeout = timeout_seconds cfg,
              follow_location = True\<rparr>\<rparr>"

definition make_headers :: "Impl \<Rightarrow> bool \<Rightarrow> (string \<times> string) list" where
  "make_headers i json_content =
     [(''Authorization'', ''Bearer '' @ api_key (config i))]
     @ (if json_content then [(''Content-Type'', ''application/json'')] else [])
     @ [(''User-Agent'',
         (case user_agent (config i) of
            Some ua \<Rightarrow> ua
          | None \<Rightarrow> ''pxshot-cpp/'' @ VERSION))]"

text \<open>
  \<open>check_response\<close> returns nothing in the source; its callers then read the response
  through \<open>res\<close>, which holds one whenever \<open>check_response\<close> has returned. The model
  returns that response. The \<open>try\<close> block is the inner \<open>case\<close>: a \<open>json::exception\<close>
  thrown by \<open>parse\<close> or by either \<open>value\<close> is caught; the \<open>ApiError\<close> thrown at the
  end of the block is not a \<open>json::exception\<close> and leaves the function.
\<close>

definition check_response :: "http_lib \<Rightarrow> json_lib \<Rightarrow> Result \<Rightarrow> string \<Rightarrow> error + Response" where
  "check_response H J res ctxt =
     (case res of
        Inl err \<Rightarrow> Inl (HttpError 0 (ctxt @ '': '' @ error_to_string H err))
      | Inr r \<Rightarrow>
          if 400 \<le> status r then
            (case and_then (parse J (body r)) (\<lambda>b.
                  and_then (value_string b ''code'' ''unknown'') (\<lambda>code.
                  and_then (value_string b ''message'' (body r)) (\<lambda>message.
                  Inr (code, message)))) of
               Inr (code, message) \<Rightarrow> Inl (ApiError code message)
             | Inl ex \<Rightarrow> Inl (HttpError (status r) (ctxt @ '': HTTP '' @ to_string (status r))))
          else Inr r)"

record Client =
  impl_m :: Impl

definition Client_of_config :: "ClientConfig \<Rightarrow> error + Client" where
  "Client_of_config cfg =
     (if api_key cfg = [] then Inl (ValidationError ''API key is required'')
      else Inr \<lparr>impl_m = Impl_of_config cfg\<rparr>)"

text \<open>
  The constructor from a bare key delegates to the one above, with the default member
  initialisers of \<open>ClientConfig\<close>.
\<close>

definition Client_of_key :: "string \<Rightarrow> error + Client" where
  "Client_of_key key =
     Client_of_config
       \<lparr>api_key = key, base_url = ''https://api.pxshot.com'', timeout_seconds = 60,
        user_agent = None\<rparr>"

subsection \<open>screenshot\<close>

text \<open>The block of \<open>screenshot\<close> under the comment \<open>Validate\<close>.\<close>

definition validate :: "ScreenshotOptions \<Rightarrow> error + unit" where
  "validate options =
     (if url options = [] then Inl (ValidationError ''URL is required'')
      else if (case quality options of Some q \<Rightarrow> sint q < 0 \<or> 100 < sint q | None \<Rightarrow> False)
        then Inl (ValidationError ''Quality must be between 0 and 100'')
      else if (case width options of Some x \<Rightarrow> sint x \<le> 0 | None \<Rightarrow> False)
        then Inl (ValidationError ''Width must be positive'')
      else if (case height options of Some x \<Rightarrow> sint x \<le> 0 | None \<Rightarrow> False)
        then Inl (ValidationError ''Height must be positive'')
      else Inr ())"

text \<open>
  The block under \<open>Build request body\<close>: the body starts as a null document, becomes an
  object with the member \<open>url\<close>, and gets one more member for every option that is
  present. The keys differ, so no assignment replaces an earlier one.
\<close>

definition optional_member :: "string \<Rightarrow> 'a option \<Rightarrow> ('a \<Rightarrow> json) \<Rightarrow> (string \<times> json) list" where
  "optional_member key x to_json = (case x of Some v \<Rightarrow> [(key, to_json v)] | None \<Rightarrow> [])"

definition request_body :: "ScreenshotOptions \<Rightarrow> json" where
  "request_body options =
     JObject
       ([(''url'', JString (url options))]
        @ optional_member ''format'' (format options) (\<lambda>f. JString (to_string_Format f))
        @ optional_member ''quality'' (quality options) (\<lambda>q. JInt (sint q))
        @ optional_member ''width'' (width options) (\<lambda>x. JInt (sint x))
        @ optional_member ''height'' (height options) (\<lambda>x. JInt (sint x))
        @ optional_member ''full_page'' (full_page options) JBool
        @ optional_member ''wait_until'' (wait_until options) (\<lambda>u. JString (to_string_WaitUntil u))
        @ optional_member ''wait_for_selector'' (wait_for_selector options) JString
        @ optional_member ''wait_for_timeout'' (wait_for_timeout options) (\<lambda>t. JInt (sint t))
        @ optional_member ''device_scale_factor'' (device_scale_factor options) JFloat
        @ optional_member ''store'' (store options) JBool
        @ optional_member ''block_ads'' (block_ads options) JBool)"

text \<open>The \<open>try\<close> block that reads a \<open>StoredScreenshot\<close> from the response body.\<close>

definition stored_of_body :: "json_lib \<Rightarrow> string \<Rightarrow> json_exception + StoredScreenshot" where
  "stored_of_body J b =
     and_then (parse J b) (\<lambda>response.
     and_then (and_then (at response ''url'') get_string) (\<lambda>u.
     and_then (and_then (at response ''expires_at'') get_string) (\<lambda>e.
     and_then (and_then (at response ''width'') (get_int J)) (\<lambda>x.
     and_then (and_then (at response ''height'') (get_int J)) (\<lambda>y.
     and_then (and_then (at response ''size_bytes'') (get_int64 J)) (\<lambda>n.
     Inr \<lparr>stored_url = u, stored_expires_at = e, stored_width = x, stored_height = y,
          stored_size_bytes = n\<rparr>))))))"

text \<open>
  What \<open>screenshot\<close> does with a response that \<open>check_response\<close> has let through
  (from the comment \<open>Check if response is JSON (stored) or binary (image bytes)\<close> on).
\<close>

definition result_of_response ::
  "json_lib \<Rightarrow> ScreenshotOptions \<Rightarrow> Response \<Rightarrow> error + ScreenshotResult" where
  "result_of_response J options r =
     (let store_mode = (case store options of Some b \<Rightarrow> b | None \<Rightarrow> False);
          content_type = header_value r ''Content-Type'';
          is_json = (find_str content_type ''application/json'' \<noteq> None)
      in if store_mode \<or> is_json then
           (case stored_of_body J (body r) of
              Inr info \<Rightarrow> Inr (ScreenshotResult_of_stored info)
            | Inl ex \<Rightarrow>
                Inl (Error (''Failed to parse stored screenshot response: '' @ what J ex)))
         else Inr (ScreenshotResult_of_bytes (vector_of_string (body r))))"

definition screenshot ::
  "json_lib \<Rightarrow> http_lib \<Rightarrow> Client \<Rightarrow> ScreenshotOptions \<Rightarrow> wire \<Rightarrow>
     (error + ScreenshotResult) \<times> wire" where
  "screenshot J H c options w =
     (case validate options of
        Inl e \<Rightarrow> (Inl e, w)
      | Inr _ \<Rightarrow>
          (let (res, w') =
                 Post H (http (impl_m c)) ''/v1/screenshot'' (make_headers (impl_m c) True)
                   (dump J (request_body options)) ''application/json'' w
           in (case check_response H J res ''Screenshot request failed'' of
                 Inl e \<Rightarrow> (Inl e, w')
               | Inr r \<Rightarrow> (result_of_response J options r, w'))))"

subsection \<open>usage\<close>

definition usage_of_body :: "json_lib \<Rightarrow> string \<Rightarrow> json_exception + Usage" where
  "usage_of_body J b =
     and_then (parse J b) (\<lambda>response.
     and_then (and_then (at response ''screenshots_taken'') (get_int J)) (\<lambda>t.
     and_then (and_then (at response ''screenshots_limit'') (get_int J)) (\<lambda>l.
     and_then (and_then (at response ''storage_bytes_used'') (get_int J)) (\<lambda>su.
     and_then (and_then (at response ''storage_bytes_limit'') (get_int J)) (\<lambda>sl.
     and_then (and_then (at response ''period_start'') get_string) (\<lambda>ps.
     and_then (and_then (at response ''period_end'') get_string) (\<lambda>pe.
     Inr \<lparr>screenshots_taken = t, screenshots_limit = l, storage_bytes_used = su,
          storage_bytes_limit = sl, period_start = ps, period_end = pe\<rparr>)))))))"

definition usage :: "json_lib \<Rightarrow> http_lib \<Rightarrow> Client \<Rightarrow> wire \<Rightarrow> (error + Usage) \<times> wire" where
  "usage J H c w =
     (let (res, w') = Get H (http (impl_m c)) ''/v1/usage'' (make_headers (impl_m c) False) w
      in (case check_response H J res ''Usage request failed'' of
            Inl e \<Rightarrow> (Inl e, w')
          | Inr r \<Rightarrow>
              (case usage_of_body J (body r) of
                 Inr u \<Rightarrow> (Inr u, w')
               | Inl ex \<Rightarrow> (Inl (Error (''Failed to parse usage response: '' @ what J ex)), w'))))"

section \<open>Stub collaborators\<close>

text \<open>
  Concrete collaborators, for running the client on concrete inputs: a transport that
  answers every request with one fixed \<open>Result\<close>, a response with a given status,
  \<open>Content-Type\<close> and body, and a JSON library whose parser knows the documents of a
  small table.
\<close>

definition stub_transport :: "Result \<Rightarrow> http_lib" where
  "stub_transport res =
     \<lparr>exchange = (\<lambda>cl req. res), error_to_string = (\<lambda>err. ''Could not establish connection'')\<rparr>"

definition response_with :: "int \<Rightarrow> string \<Rightarrow> string \<Rightarrow> Response" where
  "response_with st ct b =
     \<lparr>status = st, header_value = (\<lambda>name. if name = ''Content-Type'' then ct else []), body = b\<rparr>"

definition stored_text :: string where
  \<open>stored_text =
     ''{"url":"https://x/y.png","expires_at":"2025-01-01T00:00:00Z","width":800,"height":600,"size_bytes":12345}''\<close>

definition stored_doc :: json where
  "stored_doc =
     JObject [(''url'', JString ''https://x/y.png''),
              (''expires_at'', JString ''2025-01-01T00:00:00Z''),
              (''width'', JInt 800), (''height'', JInt 600), (''size_bytes'', JInt 12345)]"

definition no_width_text :: string where
  \<open>no_width_text =
     ''{"url":"https://x/y.png","expires_at":"2025-01-01T00:00:00Z","height":600,"size_bytes":12345}''\<close>

definition no_width_doc :: json where
  "no_width_doc =
     JObject [(''url'', JString ''https://x/y.png''),
              (''expires_at'', JString ''2025-01-01T00:00:00Z''),
              (''height'', JInt 600), (''size_bytes'', JInt 12345)]"

definition text_width_text :: string where
  \<open>text_width_text =
     ''{"url":"https://x/y.png","expires_at":"2025-01-01T00:00:00Z","width":"wide","height":600,"size_bytes":12345}''\<close>

definition text_width_doc :: json where
  "text_width_doc =
     JObject [(''url'', JString ''https://x/y.png''),
              (''expires_at'', JString ''2025-01-01T00:00:00Z''),
              (''width'', JString ''wide''), (''height'', JInt 600),
              (''size_bytes'', JInt 12345)]"

definition quota_text :: string where
  \<open>quota_text = ''{"code":"quota_exceeded","message":"limit reached"}''\<close>

definition quota_doc :: json where
  "quota_doc =
     JObject [(''code'', JString ''quota_exceeded''), (''message'', JString ''limit reached'')]"

definition usage_text :: string where
  \<open>usage_text =
     ''{"screenshots_taken":42,"screenshots_limit":1000,"storage_bytes_used":1048576,"storage_bytes_limit":1073741824,"period_start":"2025-01-01T00:00:00Z","period_end":"2025-02-01T00:00:00Z"}''\<close>

definition usage_doc :: json where
  "usage_doc =
     JObject [(''screenshots_taken'', JInt 42), (''screenshots_limit'', JInt 1000),
              (''storage_bytes_used'', JInt 1048576),
              (''storage_bytes_limit'', JInt 1073741824),
              (''period_start'', JString ''2025-01-01T00:00:00Z''),
              (''period_end'', JString ''2025-02-01T00:00:00Z'')]"

definition no_limit_text :: string where
  \<open>no_limit_text = ''{"screenshots_taken":42}''\<close>

definition no_limit_doc :: json where
  "no_limit_doc = JObject [(''screenshots_taken'', JInt 42)]"

definition odd_size_text :: string where
  \<open>odd_size_text =
     ''{"url":"https://x/y.png","expires_at":"2025-01-01T00:00:00Z","width":true,"height":4294967896,"size_bytes":12345}''\<close>

definition odd_size_doc :: json where
  "odd_size_doc =
     JObject [(''url'', JString ''https://x/y.png''),
              (''expires_at'', JString ''2025-01-01T00:00:00Z''),
              (''width'', JBool True), (''height'', JInt 4294967896),
              (''size_bytes'', JInt 12345)]"

definition bool_size_text :: string where
  \<open>bool_size_text =
     ''{"url":"https://x/y.png","expires_at":"2025-01-01T00:00:00Z","width":true,"height":false,"size_bytes":12345}''\<close>

definition bool_size_doc :: json where
  "bool_size_doc =
     JObject [(''url'', JString ''https://x/y.png''),
              (''expires_at'', JString ''2025-01-01T00:00:00Z''),
              (''width'', JBool True), (''height'', JBool False),
              (''size_bytes'', JInt 12345)]"

definition big_usage_text :: string where
  \<open>big_usage_text =
     ''{"screenshots_taken":42,"screenshots_limit":1000,"storage_bytes_used":5368709120,"storage_bytes_limit":10737418240,"period_start":"2025-01-01T00:00:00Z","period_end":"2025-02-01T00:00:00Z"}''\<close>

definition big_usage_doc :: json where
  "big_usage_doc =
     JObject [(''screenshots_taken'', JInt 42), (''screenshots_limit'', JInt 1000),
              (''storage_bytes_used'', JInt 5368709120),
              (''storage_bytes_limit'', JInt 10737418240),
              (''period_start'', JString ''2025-01-01T00:00:00Z''),
              (''period_end'', JString ''2025-02-01T00:00:00Z'')]"

definition stub_documents :: "(string \<times> json) list" where
  "stub_documents =
     [(stored_text, stored_doc), (no_width_text, no_width_doc),
      (text_width_text, text_width_doc), (quota_text, quota_doc),
      (usage_text, usage_doc), (no_limit_text, no_limit_doc),
      (''{}'', JObject []), (''[]'', JArray []),
      (odd_size_text, odd_size_doc), (big_usage_text, big_usage_doc),
      (bool_size_text, bool_size_doc)]"

definition stub_json :: json_lib where
  "stub_json =
     \<lparr>parse = (\<lambda>s. case map_of stub_documents s of
                       Some d \<Rightarrow> Inr d
                     | None \<Rightarrow> Inl (parse_error ''syntax error'')),
      dump = (\<lambda>j. []),
      cast_int = (\<lambda>d. 0),
      cast_int64 = (\<lambda>d. 0),
      what = (\<lambda>ex. ''json exception'')\<rparr>"

definition example_client :: Client where
  "example_client =
     \<lparr>impl_m = Impl_of_config
        \<lparr>api_key = ''px_key'', base_url = ''https://api.pxshot.com'', timeout_seconds = 60,
         user_agent = None\<rparr>\<rparr>"

text \<open>The options \<open>{.url = u}\<close>: every optional field absent.\<close>

definition options_for :: "string \<Rightarrow> ScreenshotOptions" where
  "options_for u =
     \<lparr>url = u, format = None, quality = None, width = None, height = None, full_page = None,
      wait_until = None, wait_for_selector = None, wait_for_timeout = None,
      device_scale_factor = None, store = None, block_ads = None\<rparr>"

section \<open>Auxiliary facts\<close>

lemma and_then_Inl: "and_then (Inl e) f = Inl e"
  by (simp add: and_then_def)

lemma and_then_Inr: "and_then (Inr x) f = f x"
  by (simp add: and_then_def)

section \<open>The result object\<close>

lemma stored_variant_exactly_one:
  "is_stored (ScreenshotResult_of_stored info) \<and> \<not> is_bytes (ScreenshotResult_of_stored info)"
  by (simp add: is_stored_def is_bytes_def ScreenshotResult_of_stored_def)

lemma bytes_variant_queries:
  "\<not> is_stored (ScreenshotResult_of_bytes data) \<and>
   is_bytes (ScreenshotResult_of_bytes data) = (data \<noteq> [])"
  by (simp add: is_stored_def is_bytes_def ScreenshotResult_of_bytes_def)

text \<open>
  C3. Every \<open>ScreenshotResult\<close> built by a constructor should answer \<open>True\<close> to exactly
  one of \<open>is_bytes()\<close> and \<open>is_stored()\<close>. The constructor from a byte vector, given
  the empty vector, builds a result that answers \<open>False\<close> to both.
\<close>

theorem empty_bytes_result_reports_no_variant:
  "\<not> is_bytes (ScreenshotResult_of_bytes []) \<and> \<not> is_stored (ScreenshotResult_of_bytes [])"
  by (simp add: is_stored_def is_bytes_def ScreenshotResult_of_bytes_def)

text \<open>
  C9. \<open>bytes()\<close> throws (the base \<open>Error\<close>) exactly when the stored member is
  populated. On a result whose stored member is empty, \<open>take_bytes()\<close> returns the
  buffer; afterwards \<open>bytes()\<close> does not throw and returns the empty sequence,
  \<open>is_bytes()\<close> is \<open>False\<close>, and a second \<open>take_bytes()\<close> returns the empty sequence.
\<close>

theorem take_bytes_leaves_empty:
  assumes "\<not> is_stored r"
  shows "(\<forall>r'. (\<exists>m. bytes r' = Inl (Error m)) = is_stored r') \<and>
         (\<forall>r'. (\<exists>e. bytes r' = Inl e) = is_stored r') \<and>
         fst (take_bytes r) = Inr (bytes_m r) \<and>
         bytes (snd (take_bytes r)) = Inr [] \<and>
         \<not> is_bytes (snd (take_bytes r)) \<and>
         \<not> is_stored (snd (take_bytes r)) \<and>
         fst (take_bytes (snd (take_bytes r))) = Inr []"
  using assms
  by (auto simp add: is_stored_def is_bytes_def bytes_def take_bytes_def split: option.splits)

theorem take_bytes_leaves_empty_witness:
  "\<not> is_stored (ScreenshotResult_of_bytes [1, 2, 3]) \<and>
   fst (take_bytes (ScreenshotResult_of_bytes [1, 2, 3])) = Inr [1, 2, 3] \<and>
   bytes (snd (take_bytes (ScreenshotResult_of_bytes [1, 2, 3]))) = Inr [] \<and>
   \<not> is_bytes (snd (take_bytes (ScreenshotResult_of_bytes [1, 2, 3]))) \<and>
   fst (take_bytes (snd (take_bytes (ScreenshotResult_of_bytes [1, 2, 3])))) = Inr []"
proof -
  have h: "\<not> is_stored (ScreenshotResult_of_bytes [1, 2, 3])"
    by (simp add: is_stored_def ScreenshotResult_of_bytes_def)
  from take_bytes_leaves_empty [OF h] show ?thesis
    using h by (simp add: ScreenshotResult_of_bytes_def)
qed

text \<open>
  C10. On a result whose stored member is empty, \<open>url()\<close>, \<open>expires_at()\<close>,
  \<open>width()\<close>, \<open>height()\<close> and \<open>size_bytes()\<close> each throw the exception that
  \<open>stored()\<close> throws: the base \<open>Error\<close>, with the same text.
\<close>

theorem accessors_fail_like_stored:
  assumes "\<not> is_stored r"
  shows "stored r = Inl (Error ''Screenshot was not stored - use bytes() instead'') \<and>
         result_url r = Inl (Error ''Screenshot was not stored - use bytes() instead'') \<and>
         result_expires_at r = Inl (Error ''Screenshot was not stored - use bytes() instead'') \<and>
         result_width r = Inl (Error ''Screenshot was not stored - use bytes() instead'') \<and>
         result_height r = Inl (Error ''Screenshot was not stored - use bytes() instead'') \<and>
         result_size_bytes r = Inl (Error ''Screenshot was not stored - use bytes() instead'')"
proof -
  from assms have "stored r = Inl (Error ''Screenshot was not stored - use bytes() instead'')"
    by (simp add: is_stored_def stored_def)
  then show ?thesis
    by (simp add: result_url_def result_expires_at_def result_width_def result_height_def
        result_size_bytes_def and_then_Inl)
qed

theorem accessors_fail_like_stored_witness:
  "\<not> is_stored (ScreenshotResult_of_bytes [7]) \<and>
   stored (ScreenshotResult_of_bytes [7]) =
     Inl (Error ''Screenshot was not stored - use bytes() instead'') \<and>
   result_url (ScreenshotResult_of_bytes [7]) =
     Inl (Error ''Screenshot was not stored - use bytes() instead'') \<and>
   result_size_bytes (ScreenshotResult_of_bytes [7]) =
     Inl (Error ''Screenshot was not stored - use bytes() instead'')"
proof -
  have h: "\<not> is_stored (ScreenshotResult_of_bytes [7])"
    by (simp add: is_stored_def ScreenshotResult_of_bytes_def)
  from accessors_fail_like_stored [OF h] show ?thesis
    using h by simp
qed

section \<open>Validation and construction\<close>

lemma Post_wire: "snd (Post H cl p hs b ct w) = w @ [\<lparr>req_method = ''POST'', req_path = p, req_headers = hs, req_body = b, req_content_type = ct\<rparr>]"
  by (simp add: Post_def Let_def)

lemma Get_wire: "snd (Get H cl p hs w) = w @ [\<lparr>req_method = ''GET'', req_path = p, req_headers = hs, req_body = [], req_content_type = []\<rparr>]"
  by (simp add: Get_def Let_def)

lemma screenshot_invalid:
  "validate options = Inl e \<Longrightarrow> screenshot J H c options w = (Inl e, w)"
  by (simp add: screenshot_def)

lemma screenshot_valid:
  assumes "validate options = Inr ()"
  shows "screenshot J H c options w =
     (case check_response H J
             (fst (Post H (http (impl_m c)) ''/v1/screenshot'' (make_headers (impl_m c) True)
                   (dump J (request_body options)) ''application/json'' w))
             ''Screenshot request failed'' of
        Inl e \<Rightarrow> Inl e
      | Inr r \<Rightarrow> result_of_response J options r,
      snd (Post H (http (impl_m c)) ''/v1/screenshot'' (make_headers (impl_m c) True)
                   (dump J (request_body options)) ''application/json'' w))"
  using assms
  by (simp add: screenshot_def Let_def split_beta split: sum.splits)

lemma check_response_kind:
  "check_response H J res ctxt \<noteq> Inl (ValidationError m)"
  by (auto simp add: check_response_def split: sum.splits if_splits prod.splits)

lemma result_of_response_kind:
  "result_of_response J options r \<noteq> Inl (ValidationError m)"
  by (auto simp add: result_of_response_def Let_def split: sum.splits if_splits)

lemma validate_Inr_iff:
  "(validate options = Inr ()) =
     (url options \<noteq> [] \<and>
      (\<forall>q. quality options = Some q \<longrightarrow> 0 \<le> sint q \<and> sint q \<le> 100) \<and>
      (\<forall>x. width options = Some x \<longrightarrow> 0 < sint x) \<and>
      (\<forall>y. height options = Some y \<longrightarrow> 0 < sint y))"
  by (auto simp add: validate_def split: option.splits)

lemma validate_total:
  "validate options = Inr () \<or> (\<exists>m. validate options = Inl (ValidationError m))"
  by (simp add: validate_def)

lemma screenshot_rejected:
  assumes "validate options \<noteq> Inr ()"
  shows "\<exists>m. screenshot J H c options w = (Inl (ValidationError m), w)"
  using assms validate_total [of options] screenshot_invalid by blast

text \<open>
  C5. With an empty \<open>url\<close>, \<open>screenshot\<close> throws \<open>ValidationError\<close> and the wire
  is as it was: no request has been sent, whatever the transport and the other options.
\<close>

theorem empty_url_sends_nothing:
  assumes "url options = []"
  shows "screenshot J H c options w = (Inl (ValidationError ''URL is required''), w)"
proof -
  from assms have "validate options = Inl (ValidationError ''URL is required'')"
    by (simp add: validate_def)
  then show ?thesis by (rule screenshot_invalid)
qed

theorem empty_url_sends_nothing_witness:
  "url (options_for []) = [] \<and>
   screenshot stub_json (stub_transport (Inr (response_with 200 ''image/png'' ''PNG''))) example_client
     (options_for []) [] = (Inl (ValidationError ''URL is required''), [])"
proof -
  have h: "url (options_for []) = []" by (simp add: options_for_def)
  from empty_url_sends_nothing [OF h] show ?thesis using h by simp
qed

text \<open>
  C8. Both constructors throw \<open>ValidationError\<close> for an empty API key; with a key that
  is not empty both return a client (no exception), which holds the key.
\<close>

theorem empty_api_key_rejected:
  "Client_of_key [] = Inl (ValidationError ''API key is required'') \<and>
   (api_key cfg = [] \<longrightarrow> Client_of_config cfg = Inl (ValidationError ''API key is required'')) \<and>
   (key \<noteq> [] \<longrightarrow> (\<exists>c. Client_of_key key = Inr c \<and> api_key (config (impl_m c)) = key)) \<and>
   (api_key cfg \<noteq> [] \<longrightarrow> Client_of_config cfg = Inr \<lparr>impl_m = Impl_of_config cfg\<rparr>)"
  by (simp add: Client_of_key_def Client_of_config_def Impl_of_config_def)

theorem empty_api_key_rejected_witness:
  "api_key \<lparr>api_key = [], base_url = ''https://api.pxshot.com'', timeout_seconds = 120, user_agent = Some ''MyApp/1.0''\<rparr> = [] \<and>
   Client_of_config \<lparr>api_key = [], base_url = ''https://api.pxshot.com'', timeout_seconds = 120, user_agent = Some ''MyApp/1.0''\<rparr>
     = Inl (ValidationError ''API key is required'') \<and>
   ''px_key'' \<noteq> [] \<and>
   (\<exists>c. Client_of_key ''px_key'' = Inr c \<and> api_key (config (impl_m c)) = ''px_key'')"
  using empty_api_key_rejected [of "\<lparr>api_key = [], base_url = ''https://api.pxshot.com'', timeout_seconds = 120, user_agent = Some ''MyApp/1.0''\<rparr>" "''px_key''"]
  by simp

lemma screenshot_no_ValidationError:
  assumes v: "validate options = Inr ()"
  shows "fst (screenshot J H c options w) \<noteq> Inl (ValidationError m)"
  using check_response_kind [of H J _ _ m] result_of_response_kind [of J options _ m]
  by (auto simp add: screenshot_valid [OF v] split: sum.splits)

lemma ValidationError_iff:
  assumes "url options \<noteq> []"
  shows "(\<exists>m. fst (screenshot J H c options w) = Inl (ValidationError m)) =
         ((\<exists>q. quality options = Some q \<and> (sint q < 0 \<or> 100 < sint q)) \<or>
          (\<exists>x. width options = Some x \<and> sint x \<le> 0) \<or>
          (\<exists>y. height options = Some y \<and> sint y \<le> 0))"
proof (cases "validate options = Inr ()")
  case True
  then have "\<not> (\<exists>m. fst (screenshot J H c options w) = Inl (ValidationError m))"
    by (simp add: screenshot_no_ValidationError)
  moreover from True have "\<not> ((\<exists>q. quality options = Some q \<and> (sint q < 0 \<or> 100 < sint q)) \<or>
          (\<exists>x. width options = Some x \<and> sint x \<le> 0) \<or>
          (\<exists>y. height options = Some y \<and> sint y \<le> 0))"
    by (auto simp add: validate_Inr_iff)
  ultimately show ?thesis by blast
next
  case False
  then have "\<exists>m. fst (screenshot J H c options w) = Inl (ValidationError m)"
    using screenshot_rejected [of options J H c w] by auto
  moreover from False assms
  have "(\<exists>q. quality options = Some q \<and> (sint q < 0 \<or> 100 < sint q)) \<or>
          (\<exists>x. width options = Some x \<and> sint x \<le> 0) \<or>
          (\<exists>y. height options = Some y \<and> sint y \<le> 0)"
    by (simp add: validate_Inr_iff) (metis not_le not_less)
  ultimately show ?thesis by blast
qed

text \<open>
  C6. A present \<open>quality\<close> outside 0..100, a present \<open>width\<close> at most 0 and a
  present \<open>height\<close> at most 0 each make \<open>screenshot\<close> throw \<open>ValidationError\<close>
  with nothing sent. With a \<open>url\<close> that is not empty (C5), options whose present
  \<open>quality\<close> is within 0..100 (0 and 100 included) and whose present \<open>width\<close> and
  \<open>height\<close> are at least 1 pass validation, absent fields never being rejected:
  one request is sent and whatever \<open>screenshot\<close> then throws is no \<open>ValidationError\<close>.
  So, the \<open>url\<close> not being empty, \<open>screenshot\<close> throws \<open>ValidationError\<close> exactly
  when a present numeric option is out of range.
\<close>

theorem numeric_options_validated:
  "(quality options = Some q \<and> (sint q < 0 \<or> 100 < sint q) \<longrightarrow>
      (\<exists>m. screenshot J H c options w = (Inl (ValidationError m), w))) \<and>
   (width options = Some x \<and> sint x \<le> 0 \<longrightarrow>
      (\<exists>m. screenshot J H c options w = (Inl (ValidationError m), w))) \<and>
   (height options = Some y \<and> sint y \<le> 0 \<longrightarrow>
      (\<exists>m. screenshot J H c options w = (Inl (ValidationError m), w))) \<and>
   (url options \<noteq> [] \<and>
    (\<forall>q'. quality options = Some q' \<longrightarrow> 0 \<le> sint q' \<and> sint q' \<le> 100) \<and>
    (\<forall>x'. width options = Some x' \<longrightarrow> 0 < sint x') \<and>
    (\<forall>y'. height options = Some y' \<longrightarrow> 0 < sint y') \<longrightarrow>
      validate options = Inr () \<and>
      (\<forall>m. fst (screenshot J H c options w) \<noteq> Inl (ValidationError m)) \<and>
      length (snd (screenshot J H c options w)) = length w + 1) \<and>
   (url options \<noteq> [] \<longrightarrow>
      (\<exists>m. fst (screenshot J H c options w) = Inl (ValidationError m)) =
      ((\<exists>q'. quality options = Some q' \<and> (sint q' < 0 \<or> 100 < sint q')) \<or>
       (\<exists>x'. width options = Some x' \<and> sint x' \<le> 0) \<or>
       (\<exists>y'. height options = Some y' \<and> sint y' \<le> 0)))"
proof (intro conjI impI)
  assume "quality options = Some q \<and> (sint q < 0 \<or> 100 < sint q)"
  then have "validate options \<noteq> Inr ()"
    by (auto simp add: validate_Inr_iff)
  then show "\<exists>m. screenshot J H c options w = (Inl (ValidationError m), w)"
    by (rule screenshot_rejected)
next
  assume "width options = Some x \<and> sint x \<le> 0"
  then have "validate options \<noteq> Inr ()"
    by (auto simp add: validate_Inr_iff)
  then show "\<exists>m. screenshot J H c options w = (Inl (ValidationError m), w)"
    by (rule screenshot_rejected)
next
  assume "height options = Some y \<and> sint y \<le> 0"
  then have "validate options \<noteq> Inr ()"
    by (auto simp add: validate_Inr_iff)
  then show "\<exists>m. screenshot J H c options w = (Inl (ValidationError m), w)"
    by (rule screenshot_rejected)
next
  assume ok: "url options \<noteq> [] \<and>
    (\<forall>q'. quality options = Some q' \<longrightarrow> 0 \<le> sint q' \<and> sint q' \<le> 100) \<and>
    (\<forall>x'. width options = Some x' \<longrightarrow> 0 < sint x') \<and>
    (\<forall>y'. height options = Some y' \<longrightarrow> 0 < sint y')"
  then show v: "validate options = Inr ()"
    by (simp add: validate_Inr_iff)
  show "\<forall>m. fst (screenshot J H c options w) \<noteq> Inl (ValidationError m)"
    by (simp add: screenshot_no_ValidationError [OF v])
  show "length (snd (screenshot J H c options w)) = length w + 1"
    by (simp add: screenshot_valid [OF v] Post_wire)
next
  assume "url options \<noteq> []"
  then show "(\<exists>m. fst (screenshot J H c options w) = Inl (ValidationError m)) =
      ((\<exists>q'. quality options = Some q' \<and> (sint q' < 0 \<or> 100 < sint q')) \<or>
       (\<exists>x'. width options = Some x' \<and> sint x' \<le> 0) \<or>
       (\<exists>y'. height options = Some y' \<and> sint y' \<le> 0))"
    by (rule ValidationError_iff)
qed


theorem numeric_options_validated_witness:
  "(quality ((options_for ''https://example.com'')\<lparr>quality := Some 101\<rparr>) = Some 101 \<and>
    100 < sint (101 :: int32) \<and>
    (\<exists>m. screenshot stub_json (stub_transport (Inr (response_with 200 ''image/png'' ''PNG'')))
           example_client ((options_for ''https://example.com'')\<lparr>quality := Some 101\<rparr>) []
         = (Inl (ValidationError m), []))) \<and>
   (quality ((options_for ''https://example.com'')\<lparr>quality := Some (- 1)\<rparr>) = Some (- 1) \<and>
    sint (- 1 :: int32) < 0 \<and>
    (\<exists>m. screenshot stub_json (stub_transport (Inr (response_with 200 ''image/png'' ''PNG'')))
           example_client ((options_for ''https://example.com'')\<lparr>quality := Some (- 1)\<rparr>) []
         = (Inl (ValidationError m), []))) \<and>
   (width ((options_for ''https://example.com'')\<lparr>width := Some 0\<rparr>) = Some 0 \<and>
    sint (0 :: int32) \<le> 0 \<and>
    (\<exists>m. screenshot stub_json (stub_transport (Inr (response_with 200 ''image/png'' ''PNG'')))
           example_client ((options_for ''https://example.com'')\<lparr>width := Some 0\<rparr>) []
         = (Inl (ValidationError m), []))) \<and>
   (height ((options_for ''https://example.com'')\<lparr>height := Some (- 600)\<rparr>) = Some (- 600) \<and>
    sint (- 600 :: int32) \<le> 0 \<and>
    (\<exists>m. screenshot stub_json (stub_transport (Inr (response_with 200 ''image/png'' ''PNG'')))
           example_client ((options_for ''https://example.com'')\<lparr>height := Some (- 600)\<rparr>) []
         = (Inl (ValidationError m), []))) \<and>
   (validate ((options_for ''https://example.com'')
        \<lparr>quality := Some 0, width := Some 1, height := Some 1\<rparr>) = Inr () \<and>
    length (snd (screenshot stub_json
        (stub_transport (Inr (response_with 200 ''image/png'' ''PNG''))) example_client
        ((options_for ''https://example.com'')
           \<lparr>quality := Some 0, width := Some 1, height := Some 1\<rparr>) [])) = 1) \<and>
   (validate ((options_for ''https://example.com'')\<lparr>quality := Some 100\<rparr>) = Inr () \<and>
    length (snd (screenshot stub_json
        (stub_transport (Inr (response_with 200 ''image/png'' ''PNG''))) example_client
        ((options_for ''https://example.com'')\<lparr>quality := Some 100\<rparr>) [])) = 1) \<and>
   (validate (options_for ''https://example.com'') = Inr () \<and>
    length (snd (screenshot stub_json
        (stub_transport (Inr (response_with 200 ''image/png'' ''PNG''))) example_client
        (options_for ''https://example.com'') [])) = 1)"
  using
    numeric_options_validated [where options = "(options_for ''https://example.com'')\<lparr>quality := Some 101\<rparr>" and q = "101" and x = "0" and y = "0"
      and J = stub_json and c = example_client and w = "[]"
      and H = "stub_transport (Inr (response_with 200 ''image/png'' ''PNG''))"]
    numeric_options_validated [where options = "(options_for ''https://example.com'')\<lparr>quality := Some (- 1)\<rparr>" and q = "- 1" and x = "0" and y = "0"
      and J = stub_json and c = example_client and w = "[]"
      and H = "stub_transport (Inr (response_with 200 ''image/png'' ''PNG''))"]
    numeric_options_validated [where options = "(options_for ''https://example.com'')\<lparr>width := Some 0\<rparr>" and q = "0" and x = "0" and y = "0"
      and J = stub_json and c = example_client and w = "[]"
      and H = "stub_transport (Inr (response_with 200 ''image/png'' ''PNG''))"]
    numeric_options_validated [where options = "(options_for ''https://example.com'')\<lparr>height := Some (- 600)\<rparr>" and q = "0" and x = "0" and y = "- 600"
      and J = stub_json and c = example_client and w = "[]"
      and H = "stub_transport (Inr (response_with 200 ''image/png'' ''PNG''))"]
    numeric_options_validated [where options = "(options_for ''https://example.com'')\<lparr>quality := Some 0, width := Some 1, height := Some 1\<rparr>" and q = "0" and x = "0" and y = "0"
      and J = stub_json and c = example_client and w = "[]"
      and H = "stub_transport (Inr (response_with 200 ''image/png'' ''PNG''))"]
    numeric_options_validated [where options = "(options_for ''https://example.com'')\<lparr>quality := Some 100\<rparr>" and q = "0" and x = "0" and y = "0"
      and J = stub_json and c = example_client and w = "[]"
      and H = "stub_transport (Inr (response_with 200 ''image/png'' ''PNG''))"]
    numeric_options_validated [where options = "options_for ''https://example.com''" and q = "0" and x = "0" and y = "0"
      and J = stub_json and c = example_client and w = "[]"
      and H = "stub_transport (Inr (response_with 200 ''image/png'' ''PNG''))"]
  by (simp add: options_for_def)

section \<open>Image responses\<close>

text \<open>\<open>find_str\<close> finds the needle exactly when the string contains it.\<close>

lemma find_str_contains:
  "(find_str hay needle \<noteq> None) = (\<exists>p s. hay = p @ needle @ s)"
proof (induction hay)
  case Nil
  show ?case by simp
next
  case (Cons c cs)
  show ?case
  proof (cases "take (length needle) (c # cs) = needle")
    case True
    then have "c # cs = [] @ needle @ drop (length needle) (c # cs)"
      by (metis append_Nil append_take_drop_id)
    then have "\<exists>p s. c # cs = p @ needle @ s" by blast
    with True show ?thesis by simp
  next
    case False
    have "(\<exists>p s. c # cs = p @ needle @ s) = (\<exists>p s. cs = p @ needle @ s)"
    proof
      assume "\<exists>p s. c # cs = p @ needle @ s"
      then obtain p s where ps: "c # cs = p @ needle @ s" by blast
      show "\<exists>p s. cs = p @ needle @ s"
      proof (cases p)
        case Nil
        with ps have "take (length needle) (c # cs) = needle" by simp
        with False show ?thesis by simp
      next
        case (Cons a p')
        with ps have "cs = p' @ needle @ s" by simp
        then show ?thesis by blast
      qed
    next
      assume "\<exists>p s. cs = p @ needle @ s"
      then obtain p s where "cs = p @ needle @ s" by blast
      then have "c # cs = (c # p) @ needle @ s" by simp
      then show "\<exists>p s. c # cs = p @ needle @ s" by blast
    qed
    with False Cons.IH show ?thesis by simp
  qed
qed

lemma unat_of_char: "unat (of_char ch :: uint8) = of_char ch"
proof -
  have "(of_char ch :: uint8) = of_nat (of_char ch)"
    by (simp only: of_nat_of_char)
  then have "unat (of_char ch :: uint8) = unat (of_nat (of_char ch) :: uint8)"
    by (simp only:)
  also have "\<dots> = (of_char ch :: nat) mod 2 ^ LENGTH(8)"
    by (rule unat_of_nat)
  also have "\<dots> = of_char ch"
    by simp
  finally show ?thesis .
qed

lemma vector_of_string_inverse: "map (\<lambda>b. char_of (unat b)) (vector_of_string s) = s"
  by (simp add: vector_of_string_def comp_def unat_of_char map_idI)

lemma vector_of_string_eq: "(vector_of_string s = vector_of_string t) = (s = t)"
proof
  assume e: "vector_of_string s = vector_of_string t"
  have "s = map (\<lambda>b. char_of (unat b)) (vector_of_string s)"
    by (simp only: vector_of_string_inverse)
  also have "\<dots> = map (\<lambda>b. char_of (unat b)) (vector_of_string t)"
    by (simp only: e)
  also have "\<dots> = t"
    by (simp only: vector_of_string_inverse)
  finally show "s = t" .
next
  assume "s = t"
  then show "vector_of_string s = vector_of_string t" by simp
qed

lemma vector_of_string_empty: "(vector_of_string s = []) = (s = [])"
  by (simp add: vector_of_string_def)

lemma check_response_passes:
  "status r < 400 \<Longrightarrow> check_response H J (Inr r) ctxt = Inr r"
  by (simp add: check_response_def)

lemma Post_fst: "fst (Post H cl p hs b ct w) =
   exchange H cl \<lparr>req_method = ''POST'', req_path = p, req_headers = hs, req_body = b,
                 req_content_type = ct\<rparr>"
  by (simp add: Post_def Let_def)

lemma Get_fst: "fst (Get H cl p hs w) =
   exchange H cl \<lparr>req_method = ''GET'', req_path = p, req_headers = hs, req_body = [],
                 req_content_type = []\<rparr>"
  by (simp add: Get_def Let_def)

lemma screenshot_passed:
  assumes v: "validate options = Inr ()"
    and p: "fst (Post H (http (impl_m c)) ''/v1/screenshot'' (make_headers (impl_m c) True)
               (dump J (request_body options)) ''application/json'' w) = Inr r"
    and s: "status r < 400"
  shows "fst (screenshot J H c options w) = result_of_response J options r"
proof -
  have "check_response H J (Inr r) ''Screenshot request failed'' = Inr r"
    using s by (rule check_response_passes)
  then show ?thesis
    by (simp only: screenshot_valid [OF v] p fst_conv sum.case)
qed

lemma bytes_branch:
  assumes "store options \<noteq> Some True"
    and "find_str (header_value r ''Content-Type'') ''application/json'' = None"
  shows "result_of_response J options r =
      Inr (ScreenshotResult_of_bytes (vector_of_string (body r)))"
proof -
  from assms(1) have "(case store options of Some b \<Rightarrow> b | None \<Rightarrow> False) = False"
    by (cases "store options") auto
  with assms(2) show ?thesis
    by (simp add: result_of_response_def)
qed

lemma image_response_gives_bytes:
  assumes "validate options = Inr ()"
    and "fst (Post H (http (impl_m c)) ''/v1/screenshot'' (make_headers (impl_m c) True)
               (dump J (request_body options)) ''application/json'' w) = Inr r"
    and "status r < 400"
    and "store options \<noteq> Some True"
    and "find_str (header_value r ''Content-Type'') ''application/json'' = None"
  shows "\<exists>res. fst (screenshot J H c options w) = Inr res \<and>
           \<not> is_stored res \<and>
           bytes res = Inr (vector_of_string (body r)) \<and>
           is_bytes res = (body r \<noteq> [])"
proof -
  have "fst (screenshot J H c options w) =
          Inr (ScreenshotResult_of_bytes (vector_of_string (body r)))"
    by (simp only: screenshot_passed [OF assms(1-3)] bytes_branch [OF assms(4,5)])
  moreover have "\<not> is_stored (ScreenshotResult_of_bytes (vector_of_string (body r)))"
    by (simp add: is_stored_def ScreenshotResult_of_bytes_def)
  moreover have "bytes (ScreenshotResult_of_bytes (vector_of_string (body r))) =
                   Inr (vector_of_string (body r))"
    by (simp add: bytes_def ScreenshotResult_of_bytes_def)
  moreover have "is_bytes (ScreenshotResult_of_bytes (vector_of_string (body r))) =
                   (body r \<noteq> [])"
    by (simp add: is_bytes_def ScreenshotResult_of_bytes_def vector_of_string_empty)
  ultimately show ?thesis by blast
qed

lemma validate_options_for: "u \<noteq> [] \<Longrightarrow> validate (options_for u) = Inr ()"
  by (simp add: validate_def options_for_def)

text \<open>
  C1. For a response below 400 whose \<open>Content-Type\<close> does not contain
  \<open>application/json\<close>, with \<open>store\<close> not set to true, \<open>screenshot\<close> returns a
  result with \<open>is_stored()\<close> false and \<open>bytes()\<close> the body unchanged
  (\<open>image_response_gives_bytes\<close>); \<open>is_bytes()\<close> should be true for every body.
  For the empty body it is false: the stub transport below answers 200, \<open>image/png\<close>,
  empty body, and the result reports neither variant.
\<close>

theorem empty_image_body_is_not_bytes:
  "fst (screenshot J (stub_transport (Inr (response_with 200 ''image/png'' []))) c
          (options_for ''https://example.com'') w) = Inr (ScreenshotResult_of_bytes []) \<and>
   \<not> is_bytes (ScreenshotResult_of_bytes []) \<and>
   \<not> is_stored (ScreenshotResult_of_bytes []) \<and>
   bytes (ScreenshotResult_of_bytes []) = Inr []"
proof -
  have v: "validate (options_for ''https://example.com'') = Inr ()"
    by (rule validate_options_for) simp
  have p: "fst (Post (stub_transport (Inr (response_with 200 ''image/png'' []))) (http (impl_m c))
              ''/v1/screenshot'' (make_headers (impl_m c) True)
              (dump J (request_body (options_for ''https://example.com''))) ''application/json'' w)
           = Inr (response_with 200 ''image/png'' [])"
    by (simp add: Post_fst stub_transport_def)
  have s: "status (response_with 200 ''image/png'' []) < 400"
    by (simp add: response_with_def)
  have o: "store (options_for ''https://example.com'') \<noteq> Some True"
    by (simp add: options_for_def)
  have f: "find_str (header_value (response_with 200 ''image/png'' []) ''Content-Type'')
             ''application/json'' = None"
    by (simp add: response_with_def)
  have "fst (screenshot J (stub_transport (Inr (response_with 200 ''image/png'' []))) c
          (options_for ''https://example.com'') w) =
        Inr (ScreenshotResult_of_bytes (vector_of_string (body (response_with 200 ''image/png'' []))))"
    by (simp only: screenshot_passed [OF v p s] bytes_branch [OF o f])
  moreover have "vector_of_string (body (response_with 200 ''image/png'' [])) = []"
    by (simp add: response_with_def vector_of_string_def)
  ultimately show ?thesis
    by (simp add: is_bytes_def is_stored_def bytes_def ScreenshotResult_of_bytes_def)
qed

section \<open>Stored responses\<close>







lemma sint_int32:
  assumes "- 2147483648 \<le> x" and "x \<le> 2147483647"
  shows "sint (word_of_int x :: int32) = x"
proof -
  have "signed_take_bit 31 x = x"
    using assms by (intro signed_take_bit_int_eq_self) simp_all
  then show ?thesis by (simp add: sint_sbintrunc')
qed





lemma stub_exchange:
  "fst (Post (stub_transport res) cl pth hs b ct w) = res"
  by (simp add: Post_fst stub_transport_def)






section \<open>Usage\<close>

lemma usage_unfold:
  "usage J H c w =
     (case check_response H J
             (fst (Get H (http (impl_m c)) ''/v1/usage'' (make_headers (impl_m c) False) w))
             ''Usage request failed'' of
        Inl e \<Rightarrow> Inl e
      | Inr r \<Rightarrow>
          (case usage_of_body J (body r) of
             Inr u \<Rightarrow> Inr u
           | Inl ex \<Rightarrow> Inl (Error (''Failed to parse usage response: '' @ what J ex))),
      snd (Get H (http (impl_m c)) ''/v1/usage'' (make_headers (impl_m c) False) w))"
  by (simp add: usage_def Let_def split_beta split: sum.splits)

lemma usage_passed:
  assumes p: "fst (Get H (http (impl_m c)) ''/v1/usage'' (make_headers (impl_m c) False) w) = Inr r"
    and s: "status r < 400"
  shows "fst (usage J H c w) =
          (case usage_of_body J (body r) of
             Inr u \<Rightarrow> Inr u
           | Inl ex \<Rightarrow> Inl (Error (''Failed to parse usage response: '' @ what J ex)))"
proof -
  have "check_response H J (Inr r) ''Usage request failed'' = Inr r"
    using s by (rule check_response_passes)
  then show ?thesis
    by (simp only: usage_unfold p fst_conv sum.case)
qed

lemma usage_of_body_Inr:
  assumes "usage_of_body J b = Inr u"
  shows "\<exists>doc. parse J b = Inr doc \<and>
           (\<exists>v. at doc ''screenshots_taken'' = Inr v \<and> get_int J v = Inr (screenshots_taken u)) \<and>
           (\<exists>v. at doc ''screenshots_limit'' = Inr v \<and> get_int J v = Inr (screenshots_limit u)) \<and>
           (\<exists>v. at doc ''storage_bytes_used'' = Inr v \<and> get_int J v = Inr (storage_bytes_used u)) \<and>
           (\<exists>v. at doc ''storage_bytes_limit'' = Inr v \<and> get_int J v = Inr (storage_bytes_limit u)) \<and>
           (\<exists>v. at doc ''period_start'' = Inr v \<and> get_string v = Inr (period_start u)) \<and>
           (\<exists>v. at doc ''period_end'' = Inr v \<and> get_string v = Inr (period_end u))"
  using assms
  by (auto simp add: usage_of_body_def and_then_def split: sum.splits)

lemma usage_fields_extracted:
  assumes p: "fst (Get H (http (impl_m c)) ''/v1/usage'' (make_headers (impl_m c) False) w) = Inr r"
    and s: "status r < 400"
    and d: "parse J (body r) = Inr doc"
  shows
    "(at doc ''screenshots_taken'' = Inr jt \<and> get_int J jt = Inr t \<and>
      at doc ''screenshots_limit'' = Inr jl \<and> get_int J jl = Inr l \<and>
      at doc ''storage_bytes_used'' = Inr ju \<and> get_int J ju = Inr su \<and>
      at doc ''storage_bytes_limit'' = Inr jm \<and> get_int J jm = Inr sl \<and>
      at doc ''period_start'' = Inr js \<and> get_string js = Inr ps \<and>
      at doc ''period_end'' = Inr je \<and> get_string je = Inr pe \<longrightarrow>
        fst (usage J H c w) =
          Inr \<lparr>screenshots_taken = t, screenshots_limit = l, storage_bytes_used = su,
               storage_bytes_limit = sl, period_start = ps, period_end = pe\<rparr>) \<and>
     ((\<exists>key ex. key \<in> {''screenshots_taken'', ''screenshots_limit'', ''storage_bytes_used'',
                        ''storage_bytes_limit'', ''period_start'', ''period_end''} \<and>
                at doc key = Inl ex) \<longrightarrow>
        (\<exists>m. fst (usage J H c w) = Inl (Error m)))"
proof (intro conjI impI)
  assume a: "at doc ''screenshots_taken'' = Inr jt \<and> get_int J jt = Inr t \<and>
      at doc ''screenshots_limit'' = Inr jl \<and> get_int J jl = Inr l \<and>
      at doc ''storage_bytes_used'' = Inr ju \<and> get_int J ju = Inr su \<and>
      at doc ''storage_bytes_limit'' = Inr jm \<and> get_int J jm = Inr sl \<and>
      at doc ''period_start'' = Inr js \<and> get_string js = Inr ps \<and>
      at doc ''period_end'' = Inr je \<and> get_string je = Inr pe"
  have "usage_of_body J (body r) =
          Inr \<lparr>screenshots_taken = t, screenshots_limit = l, storage_bytes_used = su,
               storage_bytes_limit = sl, period_start = ps, period_end = pe\<rparr>"
    using d a by (simp add: usage_of_body_def and_then_Inr)
  then show "fst (usage J H c w) =
          Inr \<lparr>screenshots_taken = t, screenshots_limit = l, storage_bytes_used = su,
               storage_bytes_limit = sl, period_start = ps, period_end = pe\<rparr>"
    by (simp add: usage_passed [OF p s])
next
  assume bad: "\<exists>key ex. key \<in> {''screenshots_taken'', ''screenshots_limit'', ''storage_bytes_used'',
                        ''storage_bytes_limit'', ''period_start'', ''period_end''} \<and>
                at doc key = Inl ex"
  have "\<exists>ex. usage_of_body J (body r) = Inl ex"
  proof (cases "usage_of_body J (body r)")
    case (Inl ex)
    then show ?thesis by blast
  next
    case (Inr u)
    from usage_of_body_Inr [OF this] d
    have "(\<exists>v. at doc ''screenshots_taken'' = Inr v) \<and>
          (\<exists>v. at doc ''screenshots_limit'' = Inr v) \<and>
          (\<exists>v. at doc ''storage_bytes_used'' = Inr v) \<and>
          (\<exists>v. at doc ''storage_bytes_limit'' = Inr v) \<and>
          (\<exists>v. at doc ''period_start'' = Inr v) \<and>
          (\<exists>v. at doc ''period_end'' = Inr v)"
      by auto
    with bad have False by auto
    then show ?thesis ..
  qed
  then obtain ex where "usage_of_body J (body r) = Inl ex" by blast
  then have "fst (usage J H c w) =
      Inl (Error (''Failed to parse usage response: '' @ what J ex))"
    by (simp add: usage_passed [OF p s])
  then show "\<exists>m. fst (usage J H c w) = Inl (Error m)" by blast
qed

lemma stub_parse_usage: "parse stub_json usage_text = Inr usage_doc"
  by (simp add: stub_json_def stub_documents_def stored_text_def no_width_text_def
      text_width_text_def quota_text_def usage_text_def)

lemma stub_parse_no_limit: "parse stub_json no_limit_text = Inr no_limit_doc"
  by (simp add: stub_json_def stub_documents_def stored_text_def no_width_text_def
      text_width_text_def quota_text_def usage_text_def no_limit_text_def)

lemma stub_exchange_Get:
  "fst (Get (stub_transport res) cl pth hs w) = res"
  by (simp add: Get_fst stub_transport_def)

lemma usage_fields_in_range:
  assumes p: "fst (Get H (http (impl_m c)) ''/v1/usage'' (make_headers (impl_m c) False) w) = Inr r"
    and s: "status r < 400"
    and d: "parse J (body r) = Inr doc"
    and a: "at doc ''screenshots_taken'' = Inr (JInt t)" "at doc ''screenshots_limit'' = Inr (JInt l)"
      "at doc ''storage_bytes_used'' = Inr (JInt su)" "at doc ''storage_bytes_limit'' = Inr (JInt sl)"
      "at doc ''period_start'' = Inr (JString ps)" "at doc ''period_end'' = Inr (JString pe)"
    and g: "- 2147483648 \<le> t" "t \<le> 2147483647" "- 2147483648 \<le> l" "l \<le> 2147483647"
      "- 2147483648 \<le> su" "su \<le> 2147483647" "- 2147483648 \<le> sl" "sl \<le> 2147483647"
  shows "\<exists>u. fst (usage J H c w) = Inr u \<and>
           sint (screenshots_taken u) = t \<and> sint (screenshots_limit u) = l \<and>
           sint (storage_bytes_used u) = su \<and> sint (storage_bytes_limit u) = sl \<and>
           period_start u = ps \<and> period_end u = pe"
proof -
  have "fst (usage J H c w) =
          Inr \<lparr>screenshots_taken = word_of_int t, screenshots_limit = word_of_int l,
               storage_bytes_used = word_of_int su, storage_bytes_limit = word_of_int sl,
               period_start = ps, period_end = pe\<rparr>"
    using a
    by (intro usage_fields_extracted [OF p s d,
          where jt = "JInt t" and jl = "JInt l" and ju = "JInt su" and jm = "JInt sl"
            and js = "JString ps" and je = "JString pe", THEN conjunct1, THEN mp])
       (simp add: get_int_def get_string_def)
  then show ?thesis
    using g by (simp add: sint_int32)
qed

lemma usage_small_payload:
  "fst (usage stub_json (stub_transport (Inr (response_with 200 ''application/json'' usage_text)))
          example_client []) =
     Inr \<lparr>screenshots_taken = 42, screenshots_limit = 1000, storage_bytes_used = 1048576,
          storage_bytes_limit = 1073741824, period_start = ''2025-01-01T00:00:00Z'',
          period_end = ''2025-02-01T00:00:00Z''\<rparr> \<and>
   (\<exists>m. fst (usage stub_json
               (stub_transport (Inr (response_with 200 ''application/json'' no_limit_text)))
               example_client []) = Inl (Error m))"
proof -
  have s: "status (response_with 200 ''application/json'' b) < 400" for b
    by (simp add: response_with_def)
  have d1: "parse stub_json (body (response_with 200 ''application/json'' usage_text)) = Inr usage_doc"
    by (simp add: response_with_def stub_parse_usage)
  have d2: "parse stub_json (body (response_with 200 ''application/json'' no_limit_text)) = Inr no_limit_doc"
    by (simp add: response_with_def stub_parse_no_limit)
  have a2: "at no_limit_doc ''screenshots_limit'' = Inl (out_of_range ''screenshots_limit'')"
    by (simp add: at_def no_limit_doc_def)
  have ok: "fst (usage stub_json
          (stub_transport (Inr (response_with 200 ''application/json'' usage_text)))
          example_client []) =
     Inr \<lparr>screenshots_taken = 42, screenshots_limit = 1000, storage_bytes_used = 1048576,
          storage_bytes_limit = 1073741824, period_start = ''2025-01-01T00:00:00Z'',
          period_end = ''2025-02-01T00:00:00Z''\<rparr>"
    using usage_fields_extracted [OF stub_exchange_Get s d1,
        where jt = "JInt 42" and t = 42 and jl = "JInt 1000" and l = 1000
          and ju = "JInt 1048576" and su = 1048576
          and jm = "JInt 1073741824" and sl = 1073741824
          and js = "JString ''2025-01-01T00:00:00Z''" and ps = "''2025-01-01T00:00:00Z''"
          and je = "JString ''2025-02-01T00:00:00Z''" and pe = "''2025-02-01T00:00:00Z''"]
    by (simp add: at_def usage_doc_def get_string_def get_int_def)
  have missing: "\<exists>m. fst (usage stub_json
               (stub_transport (Inr (response_with 200 ''application/json'' no_limit_text)))
               example_client []) = Inl (Error m)"
    by (rule mp [OF usage_fields_extracted [OF stub_exchange_Get s d2, THEN conjunct2]])
       (rule exI [of _ "''screenshots_limit''"],
        rule exI [of _ "out_of_range ''screenshots_limit''"], simp add: a2)
  from ok missing show ?thesis by simp
qed

lemma stub_parse_big_usage: "parse stub_json big_usage_text = Inr big_usage_doc"
  by (simp add: stub_json_def stub_documents_def stored_text_def no_width_text_def
      text_width_text_def quota_text_def usage_text_def no_limit_text_def odd_size_text_def
      big_usage_text_def)

text \<open>
  C7. \<open>usage\<close> should return the six fields equal to the JSON fields. The four
  counters of \<open>Usage\<close> are \<open>int\<close>, the two byte counts among them, while
  \<open>StoredScreenshot\<close> keeps its byte count in an \<open>int64_t\<close>. Counters within the
  range of \<open>int\<close> are returned exactly (\<open>usage_fields_in_range\<close>). For a payload
  with 5368709120 bytes used of 10737418240, \<open>usage\<close> returns 1073741824 bytes used
  of -2147483648; and whatever the JSON library and the transport, no \<open>Usage\<close> holds
  these two byte counts.
\<close>

theorem usage_storage_bytes_overflow:
  "parse stub_json big_usage_text = Inr big_usage_doc \<and>
   at big_usage_doc ''storage_bytes_used'' = Inr (JInt 5368709120) \<and>
   at big_usage_doc ''storage_bytes_limit'' = Inr (JInt 10737418240) \<and>
   fst (usage stub_json
          (stub_transport (Inr (response_with 200 ''application/json'' big_usage_text)))
          example_client [])
     = Inr \<lparr>screenshots_taken = 42, screenshots_limit = 1000,
            storage_bytes_used = 1073741824, storage_bytes_limit = 2147483648,
            period_start = ''2025-01-01T00:00:00Z'', period_end = ''2025-02-01T00:00:00Z''\<rparr> \<and>
   sint (1073741824 :: int32) = 1073741824 \<and>
   sint (2147483648 :: int32) = - 2147483648 \<and>
   (\<forall>u :: Usage. sint (storage_bytes_used u) \<noteq> 5368709120 \<and>
                 sint (storage_bytes_limit u) \<noteq> 10737418240)"
proof -
  let ?r = "response_with 200 ''application/json'' big_usage_text"
  have s: "status ?r < 400"
    by (simp add: response_with_def)
  have h: "(word_of_int 5368709120 :: int32) = 1073741824"
          "(word_of_int 10737418240 :: int32) = 2147483648"
    by simp_all
  have "usage_of_body stub_json (body ?r) =
     Inr \<lparr>screenshots_taken = 42, screenshots_limit = 1000,
          storage_bytes_used = 1073741824, storage_bytes_limit = 2147483648,
          period_start = ''2025-01-01T00:00:00Z'', period_end = ''2025-02-01T00:00:00Z''\<rparr>"
    by (simp add: usage_of_body_def response_with_def stub_parse_big_usage and_then_Inr
        big_usage_doc_def at_def get_string_def get_int_def h)
  then have run: "fst (usage stub_json (stub_transport (Inr ?r)) example_client []) =
     Inr \<lparr>screenshots_taken = 42, screenshots_limit = 1000,
          storage_bytes_used = 1073741824, storage_bytes_limit = 2147483648,
          period_start = ''2025-01-01T00:00:00Z'', period_end = ''2025-02-01T00:00:00Z''\<rparr>"
    by (simp add: usage_passed [OF stub_exchange_Get s])
  have small: "sint x < 2147483648" for x :: int32
    using sint_lt [of x] by simp
  have never: "\<forall>u :: Usage. sint (storage_bytes_used u) \<noteq> 5368709120 \<and>
                 sint (storage_bytes_limit u) \<noteq> 10737418240"
  proof (intro allI conjI)
    fix u :: Usage
    show "sint (storage_bytes_used u) \<noteq> 5368709120"
      using small [of "storage_bytes_used u"] by simp
    show "sint (storage_bytes_limit u) \<noteq> 10737418240"
      using small [of "storage_bytes_limit u"] by simp
  qed
  have at1: "at big_usage_doc ''storage_bytes_used'' = Inr (JInt 5368709120)"
    and at2: "at big_usage_doc ''storage_bytes_limit'' = Inr (JInt 10737418240)"
    by (simp_all add: at_def big_usage_doc_def)
  from run never at1 at2 show ?thesis
    by (simp add: stub_parse_big_usage)
qed

section \<open>Error responses\<close>

lemma to_string_500: "to_string 500 = ''500''"
  by code_simp

lemma check_response_transport:
  "check_response H J (Inl err) ctxt = Inl (HttpError 0 (ctxt @ '': '' @ error_to_string H err))"
  by (simp add: check_response_def)

lemma value_string_object:
  "value_string (JObject ms) key dflt =
     (case map_of ms key of
        None \<Rightarrow> Inr dflt
      | Some v \<Rightarrow> (case v of JString s \<Rightarrow> Inr s | _ \<Rightarrow> Inl (type_error 302)))"
  by (simp add: value_string_def get_string_def split: option.splits)

lemma value_string_not_object:
  "(\<forall>ms. doc \<noteq> JObject ms) \<Longrightarrow> value_string doc key dflt = Inl (type_error 306)"
  by (cases doc) (simp_all add: value_string_def)

lemma check_response_api:
  assumes "400 \<le> status r"
    and "parse J (body r) = Inr (JObject ms)"
    and "map_of ms ''code'' = None \<and> code = ''unknown'' \<or> map_of ms ''code'' = Some (JString code)"
    and "map_of ms ''message'' = None \<and> message = body r \<or>
         map_of ms ''message'' = Some (JString message)"
  shows "check_response H J (Inr r) ctxt = Inl (ApiError code message)"
proof -
  from assms(3) have c: "value_string (JObject ms) ''code'' ''unknown'' = Inr code"
    by (auto simp add: value_string_object)
  from assms(4) have m: "value_string (JObject ms) ''message'' (body r) = Inr message"
    by (auto simp add: value_string_object)
  from assms(1,2) c m show ?thesis
    by (simp add: check_response_def and_then_Inr)
qed

lemma check_response_http:
  assumes "400 \<le> status r"
    and "(\<exists>ex. parse J (body r) = Inl ex) \<or>
         (\<exists>doc. parse J (body r) = Inr doc \<and> (\<forall>ms. doc \<noteq> JObject ms)) \<or>
         (\<exists>ms v. parse J (body r) = Inr (JObject ms) \<and>
                 (map_of ms ''code'' = Some v \<or> map_of ms ''message'' = Some v) \<and>
                 (\<forall>s. v \<noteq> JString s))"
  shows "check_response H J (Inr r) ctxt =
           Inl (HttpError (status r) (ctxt @ '': HTTP '' @ to_string (status r)))"
proof -
  from assms(2) consider
      (invalid) ex where "parse J (body r) = Inl ex"
    | (not_object) doc where "parse J (body r) = Inr doc" "\<forall>ms. doc \<noteq> JObject ms"
    | (not_string) ms v where "parse J (body r) = Inr (JObject ms)"
        "map_of ms ''code'' = Some v \<or> map_of ms ''message'' = Some v" "\<forall>s. v \<noteq> JString s"
    by blast
  then have "\<exists>ex. and_then (parse J (body r)) (\<lambda>b.
                  and_then (value_string b ''code'' ''unknown'') (\<lambda>code.
                  and_then (value_string b ''message'' (body r)) (\<lambda>message.
                  Inr (code, message)))) = Inl ex"
  proof cases
    case invalid
    then show ?thesis by (simp add: and_then_Inl)
  next
    case not_object
    then show ?thesis
      by (simp add: and_then_Inr and_then_Inl value_string_not_object)
  next
    case not_string
    from not_string(3)
    have g: "(case v of JString s \<Rightarrow> Inr s | _ \<Rightarrow> Inl (type_error 302)) = Inl (type_error 302)"
      by (cases v) simp_all
    from not_string(2) show ?thesis
    proof
      assume "map_of ms ''code'' = Some v"
      with not_string(1) g show ?thesis
        by (simp add: and_then_Inr and_then_Inl value_string_object)
    next
      assume "map_of ms ''message'' = Some v"
      with g have "value_string (JObject ms) ''message'' (body r) = Inl (type_error 302)"
        by (simp add: value_string_object)
      with not_string(1) show ?thesis
        by (cases "value_string (JObject ms) ''code'' ''unknown''")
           (simp_all add: and_then_Inr and_then_Inl)
    qed
  qed
  then obtain ex where "and_then (parse J (body r)) (\<lambda>b.
                  and_then (value_string b ''code'' ''unknown'') (\<lambda>code.
                  and_then (value_string b ''message'' (body r)) (\<lambda>message.
                  Inr (code, message)))) = Inl ex" by blast
  with assms(1) show ?thesis
    by (simp add: check_response_def)
qed

lemma screenshot_check_failed:
  assumes "validate options = Inr ()"
    and "check_response H J
           (fst (Post H (http (impl_m c)) ''/v1/screenshot'' (make_headers (impl_m c) True)
                  (dump J (request_body options)) ''application/json'' w))
           ''Screenshot request failed'' = Inl e"
  shows "fst (screenshot J H c options w) = Inl e"
  by (simp only: screenshot_valid [OF assms(1)] assms(2) fst_conv sum.case)

lemma usage_check_failed:
  assumes "check_response H J
           (fst (Get H (http (impl_m c)) ''/v1/usage'' (make_headers (impl_m c) False) w))
           ''Usage request failed'' = Inl e"
  shows "fst (usage J H c w) = Inl e"
  by (simp only: usage_unfold assms fst_conv sum.case)


lemma stub_parse_quota: "parse stub_json quota_text = Inr quota_doc"
  by (simp add: stub_json_def stub_documents_def stored_text_def no_width_text_def
      text_width_text_def quota_text_def)

lemma stub_parse_empty_object: "parse stub_json ''{}'' = Inr (JObject [])"
  by (simp add: stub_json_def stub_documents_def stored_text_def no_width_text_def
      text_width_text_def quota_text_def usage_text_def no_limit_text_def)

lemma stub_parse_empty_array: "parse stub_json ''[]'' = Inr (JArray [])"
  by (simp add: stub_json_def stub_documents_def stored_text_def no_width_text_def
      text_width_text_def quota_text_def usage_text_def no_limit_text_def)

lemma stub_parse_html: "parse stub_json ''<html>Internal Server Error</html>'' =
    Inl (parse_error ''syntax error'')"
  by (simp add: stub_json_def stub_documents_def stored_text_def no_width_text_def
      text_width_text_def quota_text_def usage_text_def no_limit_text_def odd_size_text_def
      big_usage_text_def bool_size_text_def)

text \<open>
  An error body need not have the members \<open>code\<close> and \<open>message\<close> for an
  \<open>ApiError\<close>, and a body that parses need not give one. Status 500 with the body
  \<open>{}\<close>, an object with neither member: \<open>screenshot\<close> throws \<open>ApiError\<close> with
  the code \<open>unknown\<close> and the raw body as message, not \<open>HttpError\<close>. Status 500
  with the body \<open>[]\<close>, valid JSON but no object: \<open>usage\<close> throws \<open>HttpError\<close>.
\<close>

theorem error_body_without_fields:
  "parse stub_json ''{}'' = Inr (JObject []) \<and>
   map_of [] ''code'' = (None :: json option) \<and>
   fst (screenshot stub_json (stub_transport (Inr (response_with 500 ''application/json'' ''{}'')))
          example_client (options_for ''https://example.com'') [])
     = Inl (ApiError ''unknown'' ''{}'') \<and>
   fst (screenshot stub_json (stub_transport (Inr (response_with 500 ''application/json'' ''{}'')))
          example_client (options_for ''https://example.com'') [])
     \<noteq> Inl (HttpError 500 ''Screenshot request failed: HTTP 500'') \<and>
   parse stub_json ''[]'' = Inr (JArray []) \<and>
   fst (usage stub_json (stub_transport (Inr (response_with 500 ''application/json'' ''[]'')))
          example_client [])
     = Inl (HttpError 500 ''Usage request failed: HTTP 500'')"
proof -
  have v: "validate (options_for ''https://example.com'') = Inr ()"
    by (rule validate_options_for) simp
  have s: "400 \<le> status (response_with 500 ''application/json'' b)" for b
    by (simp add: response_with_def)
  have "check_response (stub_transport (Inr (response_with 500 ''application/json'' ''{}'')))
          stub_json (Inr (response_with 500 ''application/json'' ''{}''))
          ''Screenshot request failed'' = Inl (ApiError ''unknown'' ''{}'')"
    by (rule check_response_api [OF s, where ms = "[]"])
       (simp_all add: response_with_def stub_parse_empty_object)
  then have a: "fst (screenshot stub_json
          (stub_transport (Inr (response_with 500 ''application/json'' ''{}'')))
          example_client (options_for ''https://example.com'') [])
     = Inl (ApiError ''unknown'' ''{}'')"
    by (intro screenshot_check_failed [OF v]) (simp only: stub_exchange)
  have "check_response (stub_transport (Inr (response_with 500 ''application/json'' ''[]'')))
          stub_json (Inr (response_with 500 ''application/json'' ''[]''))
          ''Usage request failed'' =
        Inl (HttpError (status (response_with 500 ''application/json'' ''[]''))
               (''Usage request failed'' @ '': HTTP '' @
                to_string (status (response_with 500 ''application/json'' ''[]''))))"
    by (rule check_response_http [OF s], rule disjI2, rule disjI1,
        rule exI [of _ "JArray []"])
       (simp add: response_with_def stub_parse_empty_array)
  then have "check_response (stub_transport (Inr (response_with 500 ''application/json'' ''[]'')))
          stub_json (Inr (response_with 500 ''application/json'' ''[]''))
          ''Usage request failed'' = Inl (HttpError 500 ''Usage request failed: HTTP 500'')"
    by (simp add: response_with_def to_string_500)
  then have b: "fst (usage stub_json
          (stub_transport (Inr (response_with 500 ''application/json'' ''[]'')))
          example_client [])
     = Inl (HttpError 500 ''Usage request failed: HTTP 500'')"
    by (intro usage_check_failed) (simp only: stub_exchange_Get)
  from a b show ?thesis
    by (simp add: stub_parse_empty_object stub_parse_empty_array)
qed

text \<open>
  C2, amended. A transport failure makes \<open>check_response\<close> throw \<open>HttpError\<close> with
  status 0. For a response with status at least 400: if the body parses to a JSON object
  whose members \<open>code\<close> and \<open>message\<close>, where present, are strings, it throws
  \<open>ApiError\<close> with the body's code (\<open>unknown\<close> when the object has none) and the
  body's message (the raw body text when the object has none); if the body does not
  parse, parses to something that is no object, or has a \<open>code\<close> or \<open>message\<close> that
  is no string, it throws \<open>HttpError\<close> with the status. \<open>screenshot\<close> (once the
  options have passed validation) and \<open>usage\<close> throw what \<open>check_response\<close> throws.
\<close>

theorem error_responses_raise:
  "check_response H J (Inl err) ctxt = Inl (HttpError 0 (ctxt @ '': '' @ error_to_string H err)) \<and>
   (400 \<le> status r \<and> parse J (body r) = Inr (JObject ms) \<and>
    (map_of ms ''code'' = None \<and> code = ''unknown'' \<or>
       map_of ms ''code'' = Some (JString code)) \<and>
    (map_of ms ''message'' = None \<and> message = body r \<or>
       map_of ms ''message'' = Some (JString message)) \<longrightarrow>
      check_response H J (Inr r) ctxt = Inl (ApiError code message)) \<and>
   (400 \<le> status r \<and>
    ((\<exists>ex. parse J (body r) = Inl ex) \<or>
     (\<exists>doc. parse J (body r) = Inr doc \<and> (\<forall>ms'. doc \<noteq> JObject ms')) \<or>
     (\<exists>ms' v. parse J (body r) = Inr (JObject ms') \<and>
                (map_of ms' ''code'' = Some v \<or> map_of ms' ''message'' = Some v) \<and>
                (\<forall>s. v \<noteq> JString s))) \<longrightarrow>
      check_response H J (Inr r) ctxt =
        Inl (HttpError (status r) (ctxt @ '': HTTP '' @ to_string (status r)))) \<and>
   (validate options = Inr () \<and>
    check_response H J
      (fst (Post H (http (impl_m c)) ''/v1/screenshot'' (make_headers (impl_m c) True)
             (dump J (request_body options)) ''application/json'' w))
      ''Screenshot request failed'' = Inl e \<longrightarrow>
      fst (screenshot J H c options w) = Inl e) \<and>
   (check_response H J
      (fst (Get H (http (impl_m c)) ''/v1/usage'' (make_headers (impl_m c) False) w))
      ''Usage request failed'' = Inl e \<longrightarrow>
      fst (usage J H c w) = Inl e)"
proof (intro conjI impI)
  show "check_response H J (Inl err) ctxt =
          Inl (HttpError 0 (ctxt @ '': '' @ error_to_string H err))"
    by (rule check_response_transport)
next
  assume "400 \<le> status r \<and> parse J (body r) = Inr (JObject ms) \<and>
    (map_of ms ''code'' = None \<and> code = ''unknown'' \<or>
       map_of ms ''code'' = Some (JString code)) \<and>
    (map_of ms ''message'' = None \<and> message = body r \<or>
       map_of ms ''message'' = Some (JString message))"
  then show "check_response H J (Inr r) ctxt = Inl (ApiError code message)"
    by (intro check_response_api [where ms = ms]) simp_all
next
  assume "400 \<le> status r \<and>
    ((\<exists>ex. parse J (body r) = Inl ex) \<or>
     (\<exists>doc. parse J (body r) = Inr doc \<and> (\<forall>ms'. doc \<noteq> JObject ms')) \<or>
     (\<exists>ms' v. parse J (body r) = Inr (JObject ms') \<and>
                (map_of ms' ''code'' = Some v \<or> map_of ms' ''message'' = Some v) \<and>
                (\<forall>s. v \<noteq> JString s)))"
  then show "check_response H J (Inr r) ctxt =
        Inl (HttpError (status r) (ctxt @ '': HTTP '' @ to_string (status r)))"
    by (intro check_response_http) simp_all
next
  assume "validate options = Inr () \<and>
    check_response H J
      (fst (Post H (http (impl_m c)) ''/v1/screenshot'' (make_headers (impl_m c) True)
             (dump J (request_body options)) ''application/json'' w))
      ''Screenshot request failed'' = Inl e"
  then show "fst (screenshot J H c options w) = Inl e"
    by (intro screenshot_check_failed) simp_all
next
  assume "check_response H J
      (fst (Get H (http (impl_m c)) ''/v1/usage'' (make_headers (impl_m c) False) w))
      ''Usage request failed'' = Inl e"
  then show "fst (usage J H c w) = Inl e"
    by (rule usage_check_failed)
qed


theorem error_responses_raise_witness:
  "400 \<le> status (response_with 402 ''application/json'' quota_text) \<and>
   parse stub_json (body (response_with 402 ''application/json'' quota_text)) =
     Inr (JObject [(''code'', JString ''quota_exceeded''), (''message'', JString ''limit reached'')]) \<and>
   fst (screenshot stub_json
          (stub_transport (Inr (response_with 402 ''application/json'' quota_text)))
          example_client (options_for ''https://example.com'') [])
     = Inl (ApiError ''quota_exceeded'' ''limit reached'') \<and>
   fst (usage stub_json
          (stub_transport (Inr (response_with 402 ''application/json'' quota_text)))
          example_client [])
     = Inl (ApiError ''quota_exceeded'' ''limit reached'') \<and>
   400 \<le> status (response_with 500 ''text/html'' ''<html>Internal Server Error</html>'') \<and>
   parse stub_json (body (response_with 500 ''text/html'' ''<html>Internal Server Error</html>'')) =
     Inl (parse_error ''syntax error'') \<and>
   fst (screenshot stub_json
          (stub_transport (Inr (response_with 500 ''text/html'' ''<html>Internal Server Error</html>'')))
          example_client (options_for ''https://example.com'') [])
     = Inl (HttpError 500 ''Screenshot request failed: HTTP 500'') \<and>
   fst (usage stub_json (stub_transport (Inl 2)) example_client [])
     = Inl (HttpError 0 ''Usage request failed: Could not establish connection'')"
proof -
  let ?quota = "response_with 402 ''application/json'' quota_text"
  let ?html = "response_with 500 ''text/html'' ''<html>Internal Server Error</html>''"
  note T = error_responses_raise [where J = stub_json and c = example_client
      and options = "options_for ''https://example.com''" and w = "[]"]
  have v: "validate (options_for ''https://example.com'') = Inr ()"
    by (rule validate_options_for) simp
  have sq: "400 \<le> status ?quota" and sh: "400 \<le> status ?html"
    by (simp_all add: response_with_def)
  have pq: "parse stub_json (body ?quota) =
     Inr (JObject [(''code'', JString ''quota_exceeded''), (''message'', JString ''limit reached'')])"
    by (simp add: response_with_def stub_parse_quota quota_doc_def)
  have ph: "parse stub_json (body ?html) = Inl (parse_error ''syntax error'')"
    by (simp add: response_with_def stub_parse_html)
  have cq: "check_response (stub_transport (Inr ?quota)) stub_json (Inr ?quota) ctxt =
          Inl (ApiError ''quota_exceeded'' ''limit reached'')" for ctxt
    using T [where H = "stub_transport (Inr ?quota)" and r = "?quota" and ctxt = ctxt
        and ms = "[(''code'', JString ''quota_exceeded''), (''message'', JString ''limit reached'')]"
        and code = "''quota_exceeded''" and message = "''limit reached''",
        THEN conjunct2, THEN conjunct1] sq pq
    by simp
  have ch: "check_response (stub_transport (Inr ?html)) stub_json (Inr ?html)
          ''Screenshot request failed'' =
          Inl (HttpError 500 ''Screenshot request failed: HTTP 500'')"
    using T [where H = "stub_transport (Inr ?html)" and r = "?html"
        and ctxt = "''Screenshot request failed''",
        THEN conjunct2, THEN conjunct2, THEN conjunct1] sh ph
    by (simp add: response_with_def to_string_500)
  have ct: "check_response (stub_transport (Inl 2)) stub_json (Inl 2) ''Usage request failed'' =
          Inl (HttpError 0 ''Usage request failed: Could not establish connection'')"
    using T [where H = "stub_transport (Inl 2)" and err = 2 and ctxt = "''Usage request failed''",
        THEN conjunct1]
    by (simp add: stub_transport_def)
  have r1: "fst (screenshot stub_json (stub_transport (Inr ?quota)) example_client
               (options_for ''https://example.com'') [])
            = Inl (ApiError ''quota_exceeded'' ''limit reached'')"
    using T [where H = "stub_transport (Inr ?quota)"
        and e = "ApiError ''quota_exceeded'' ''limit reached''",
        THEN conjunct2, THEN conjunct2, THEN conjunct2, THEN conjunct1] v cq
    by (simp add: stub_exchange)
  have r2: "fst (usage stub_json (stub_transport (Inr ?quota)) example_client [])
            = Inl (ApiError ''quota_exceeded'' ''limit reached'')"
    using T [where H = "stub_transport (Inr ?quota)"
        and e = "ApiError ''quota_exceeded'' ''limit reached''",
        THEN conjunct2, THEN conjunct2, THEN conjunct2, THEN conjunct2] cq
    by (simp add: stub_exchange_Get)
  have r3: "fst (screenshot stub_json (stub_transport (Inr ?html)) example_client
               (options_for ''https://example.com'') [])
            = Inl (HttpError 500 ''Screenshot request failed: HTTP 500'')"
    using T [where H = "stub_transport (Inr ?html)"
        and e = "HttpError 500 ''Screenshot request failed: HTTP 500''",
        THEN conjunct2, THEN conjunct2, THEN conjunct2, THEN conjunct1] v ch
    by (simp add: stub_exchange)
  have r4: "fst (usage stub_json (stub_transport (Inl 2)) example_client [])
            = Inl (HttpError 0 ''Usage request failed: Could not establish connection'')"
    using T [where H = "stub_transport (Inl 2)"
        and e = "HttpError 0 ''Usage request failed: Could not establish connection''",
        THEN conjunct2, THEN conjunct2, THEN conjunct2, THEN conjunct2] ct
    by (simp add: stub_exchange_Get)
  from sq pq r1 r2 sh ph r3 r4 show ?thesis by simp
qed

end
